theory Spec2Isabelle
  imports Main "HOL-Library.AList" "HOL-Library.Sublist" "HOL-Library.Log_Nat"
begin

section \<open>The todo store of \<open>todo_manager.py\<close>\<close>

subsection \<open>Values, records, messages\<close>

text \<open>
  A todo is a Python \<open>dict\<close> from field names to values; the fields hold integers,
  strings or \<open>None\<close>. Python dictionaries keep insertion order and \<open>todo[key] = value\<close>
  on an existing key replaces the value in place, which is what \<open>AList.update\<close> does on
  an association list. A \<open>str\<close> is represented by its UTF-8 encoding, a list of bytes:
  two strings are equal, and one occurs in the other, exactly when their encodings are.
  \<open>str.lower\<close> is a library function over all of Unicode and is not defined here: the
  search takes it as a parameter.
\<close>

datatype pyval = PNone | PInt int | PStr string

datatype py_error =
  KeyError | AttributeError | TypeError | ZeroDivisionError | UnicodeDecodeError

type_synonym todo = "(string \<times> pyval) list"

text \<open>A decoded JSON value (numbers are taken as integers).\<close>

datatype json =
    JNull
  | JBool bool
  | JNumber int
  | JString string
  | JArray "json list"
  | JObject "(string \<times> json) list"

text \<open>
  The backing file, by what \<open>open(..., 'r')\<close> and \<open>json.load\<close> make of its content:
  \<^item> \<open>JsonFile ts\<close>: the JSON text of a list of flat records, decoded to \<open>ts\<close>
    (\<open>json.dump\<close> writes such a file);
  \<^item> \<open>JsonOther v\<close>: the JSON text of any other value \<open>v\<close>, which \<open>json.load\<close>
    decodes without complaint;
  \<^item> \<open>Unparsable\<close>: text that is not JSON, on which \<open>json.load\<close> raises
    \<open>JSONDecodeError\<close>;
  \<^item> \<open>Undecodable\<close>: bytes that are not text in the encoding of the file object, on
    which reading raises \<open>UnicodeDecodeError\<close>.
  Failures of \<open>open\<close> itself (permissions, a directory in place of the file) are not
  modelled.
\<close>

datatype stored = JsonFile "todo list" | JsonOther json | Unparsable | Undecodable

text \<open>What \<open>load_todos\<close> returns: a list of records, or whatever else the file held.\<close>

datatype loaded = Tasks "todo list" | NotTasks json

text \<open>
  The \<open>TodoManager\<close> object (\<open>data_file\<close>, \<open>todos\<close>) together with the file system it
  reads and writes.
\<close>

record state =
  data_file :: string
  todos :: "todo list"
  files :: "string \<rightharpoonup> stored"

text \<open>
  What a method prints, one constructor per \<open>print\<close> outcome of the source; the layout of
  the printed lines is not modelled, only the data they show. The statistics are the
  total, the completed and pending counts, the completion rate line and the priority
  breakdown; a printed rate is given in tenths of a percent.
\<close>

datatype rate = NoTodos | CompletionRate int

datatype message =
    ReadError
  | TodoAdded string
  | NoTodosFound
  | TodoList "todo list"
  | TodoUpdated int
  | TodoNotFound int
  | TodoDeleted pyval
  | TodoDetails todo
  | SearchResults string "todo list"
  | NoMatch string
  | Statistics nat nat int rate "(pyval \<times> nat) list"

text \<open>A call either raises or returns normally after printing.\<close>

datatype outcome = Raised py_error | Printed "message list"

subsection \<open>Python primitives\<close>

definition getitem :: "todo \<Rightarrow> string \<Rightarrow> py_error + pyval" where
  "getitem t k = (case map_of t k of None \<Rightarrow> Inl KeyError | Some v \<Rightarrow> Inr v)"

definition has_key :: "string \<Rightarrow> todo \<Rightarrow> bool" where
  "has_key k t = (map_of t k \<noteq> None)"

definition truthy :: "pyval \<Rightarrow> bool" where
  "truthy v = (case v of PNone \<Rightarrow> False | PInt i \<Rightarrow> i \<noteq> 0 | PStr s \<Rightarrow> s \<noteq> [])"

text \<open>
  Two instances of \<open>str.lower\<close>, each on the strings named. On ASCII text \<open>str.lower\<close>
  maps \<open>A\<close>..\<open>Z\<close> to \<open>a\<close>..\<open>z\<close> byte by byte and keeps every other byte.
\<close>

definition ascii_lower_char :: "char \<Rightarrow> char" where
  "ascii_lower_char c =
     (case map_of (zip ''ABCDEFGHIJKLMNOPQRSTUVWXYZ'' ''abcdefghijklmnopqrstuvwxyz'') c of
        None \<Rightarrow> c | Some d \<Rightarrow> d)"

definition ascii_lower :: "string \<Rightarrow> string" where
  "ascii_lower = map ascii_lower_char"

text \<open>
  Two Greek words in UTF-8: omicron sigma (U+039F U+03A3) and omicron sigma alpha
  (U+039F U+03A3 U+0391), capital letters.
\<close>

definition omicron_sigma :: string where
  "omicron_sigma = [CHR 0xCE, CHR 0x9F, CHR 0xCE, CHR 0xA3]"

definition omicron_sigma_alpha :: string where
  "omicron_sigma_alpha = [CHR 0xCE, CHR 0x9F, CHR 0xCE, CHR 0xA3, CHR 0xCE, CHR 0x91]"

text \<open>
  \<open>str.lower\<close> on these two words and on ASCII text. A capital sigma at the end of a
  word becomes the final sigma U+03C2, elsewhere the sigma U+03C3: Python gives
  U+03BF U+03C2 for the first word and U+03BF U+03C3 U+03B1 for the second.
\<close>

definition greek_sample_lower :: "string \<Rightarrow> string" where
  "greek_sample_lower x =
     (if x = omicron_sigma then [CHR 0xCE, CHR 0xBF, CHR 0xCF, CHR 0x82]
      else if x = omicron_sigma_alpha
        then [CHR 0xCE, CHR 0xBF, CHR 0xCF, CHR 0x83, CHR 0xCE, CHR 0xB1]
      else ascii_lower x)"

text \<open>\<open>q in s\<close> on strings: \<open>q\<close> occurs in \<open>s\<close> as a contiguous run.\<close>

fun str_in :: "string \<Rightarrow> string \<Rightarrow> bool" where
  "str_in q [] = (q = [])"
| "str_in q (c # cs) = (prefix q (c # cs) \<or> str_in q cs)"

text \<open>The first exception of a sequence of steps, each \<open>None\<close> when it passes.\<close>

fun first_error :: "py_error option list \<Rightarrow> py_error option" where
  "first_error [] = None"
| "first_error (None # es) = first_error es"
| "first_error (Some e # es) = Some e"

text \<open>\<open>todo[k]\<close> read for printing.\<close>

definition read_key :: "todo \<Rightarrow> string \<Rightarrow> py_error option" where
  "read_key t k = (if has_key k t then None else Some KeyError)"

text \<open>\<open>todo[k].title()\<close>: only strings have the method.\<close>

definition read_title_case :: "todo \<Rightarrow> string \<Rightarrow> py_error option" where
  "read_title_case t k =
     (case map_of t k of None \<Rightarrow> Some KeyError
      | Some (PStr s) \<Rightarrow> None
      | Some _ \<Rightarrow> Some AttributeError)"

text \<open>\<open>todo[k][:10]\<close>: only strings can be sliced.\<close>

definition read_slice :: "todo \<Rightarrow> string \<Rightarrow> py_error option" where
  "read_slice t k =
     (case map_of t k of None \<Rightarrow> Some KeyError
      | Some (PStr s) \<Rightarrow> None
      | Some _ \<Rightarrow> Some TypeError)"

text \<open>\<open>if todo[k]: ... todo[k][:10]\<close>.\<close>

definition read_slice_if_set :: "todo \<Rightarrow> string \<Rightarrow> py_error option" where
  "read_slice_if_set t k =
     (case map_of t k of None \<Rightarrow> Some KeyError
      | Some v \<Rightarrow> (if truthy v then read_slice t k else None))"

subsection \<open>Loading and saving\<close>

text \<open>
  \<open>load_todos\<close>: what is printed while reading and the value returned, or the exception
  that leaves the method. A missing path is \<open>os.path.exists\<close> returning false. The only
  handler is \<open>except json.JSONDecodeError\<close>: it prints and returns \<open>[]\<close>. Whatever
  \<open>json.load\<close> decodes is returned as it is, and \<open>UnicodeDecodeError\<close> is not caught.
\<close>

definition load_todos :: "string \<Rightarrow> (string \<rightharpoonup> stored) \<Rightarrow> py_error + message list \<times> loaded" where
  "load_todos path fs =
     (case fs path of
        None \<Rightarrow> Inr ([], Tasks [])
      | Some (JsonFile ts) \<Rightarrow> Inr ([], Tasks ts)
      | Some (JsonOther v) \<Rightarrow> Inr ([], NotTasks v)
      | Some Unparsable \<Rightarrow> Inr ([ReadError], Tasks [])
      | Some Undecodable \<Rightarrow> Inl UnicodeDecodeError)"

text \<open>
  \<open>TodoManager(data_file)\<close>: the constructor raises what \<open>load_todos\<close> raises, and
  otherwise keeps what it returns. The methods are modelled on a manager that holds a
  list of records (\<open>Started\<close>); one that holds another value is \<open>Misloaded\<close>.
\<close>

datatype startup =
    Crashed py_error
  | Started "message list" state
  | Misloaded "message list" json

definition init :: "string \<Rightarrow> (string \<rightharpoonup> stored) \<Rightarrow> startup" where
  "init path fs =
     (case load_todos path fs of
        Inl e \<Rightarrow> Crashed e
      | Inr (out, Tasks ts) \<Rightarrow> Started out \<lparr>data_file = path, todos = ts, files = fs\<rparr>
      | Inr (out, NotTasks v) \<Rightarrow> Misloaded out v)"

definition save_todos :: "state \<Rightarrow> state" where
  "save_todos s = s\<lparr>files := (files s)(data_file s \<mapsto> JsonFile (todos s))\<rparr>"

subsection \<open>Mutations\<close>

definition new_todo :: "string \<Rightarrow> nat \<Rightarrow> string \<Rightarrow> string \<Rightarrow> string \<Rightarrow> string option \<Rightarrow> todo" where
  "new_todo now n title description priority due_date =
     [(''id'', PInt (int n + 1)),
      (''title'', PStr title),
      (''description'', PStr description),
      (''priority'', PStr priority),
      (''status'', PStr ''pending''),
      (''created_at'', PStr now),
      (''due_date'', (case due_date of None \<Rightarrow> PNone | Some d \<Rightarrow> PStr d)),
      (''completed_at'', PNone)]"

text \<open>\<open>now\<close> is the reading of \<open>datetime.now().isoformat()\<close> during the call.\<close>

definition add_todo ::
  "string \<Rightarrow> string \<Rightarrow> string \<Rightarrow> string \<Rightarrow> string option \<Rightarrow> state \<Rightarrow> outcome \<times> state" where
  "add_todo now title description priority due_date s =
     (let todo = new_todo now (length (todos s)) title description priority due_date
      in (Printed [TodoAdded title], save_todos (s\<lparr>todos := todos s @ [todo]\<rparr>)))"

text \<open>
  The loop head shared by \<open>update_todo\<close>, \<open>delete_todo\<close> and \<open>show_todo\<close>:
  \<open>for todo in self.todos: if todo["id"] == todo_id\<close>. The result is the position of the
  first todo with that id, \<open>None\<close> when the loop runs to its end, or the \<open>KeyError\<close> of a
  todo without the key met before any match.
\<close>

fun find_todo :: "int \<Rightarrow> todo list \<Rightarrow> (py_error + nat) option" where
  "find_todo todo_id [] = None"
| "find_todo todo_id (t # ts) =
     (case getitem t ''id'' of
        Inl e \<Rightarrow> Some (Inl e)
      | Inr v \<Rightarrow>
          if v = PInt todo_id then Some (Inr 0)
          else map_option (map_sum id Suc) (find_todo todo_id ts))"

text \<open>The inner loop of \<open>update_todo\<close> over \<open>kwargs.items()\<close>.\<close>

fun apply_kwargs :: "string \<Rightarrow> (string \<times> pyval) list \<Rightarrow> todo \<Rightarrow> todo" where
  "apply_kwargs now [] t = t"
| "apply_kwargs now ((key, val) # kwargs) t =
     apply_kwargs now kwargs
       (if has_key key t then
          (let t' = AList.update key val t
           in if key = ''status'' \<and> val = PStr ''completed''
              then AList.update ''completed_at'' (PStr now) t' else t')
        else t)"

definition update_todo ::
  "string \<Rightarrow> int \<Rightarrow> (string \<times> pyval) list \<Rightarrow> state \<Rightarrow> outcome \<times> state" where
  "update_todo now todo_id kwargs s =
     (case find_todo todo_id (todos s) of
        Some (Inl e) \<Rightarrow> (Raised e, s)
      | Some (Inr i) \<Rightarrow>
          (Printed [TodoUpdated todo_id],
           save_todos (s\<lparr>todos := (todos s)[i := apply_kwargs now kwargs (todos s ! i)]\<rparr>))
      | None \<Rightarrow> (Printed [TodoNotFound todo_id], s))"

text \<open>
  \<open>delete_todo\<close>: \<open>pop(i)\<close>, save, then print the title of the popped todo; a todo
  without a title raises after the file has been written.
\<close>

definition delete_todo :: "int \<Rightarrow> state \<Rightarrow> outcome \<times> state" where
  "delete_todo todo_id s =
     (case find_todo todo_id (todos s) of
        Some (Inl e) \<Rightarrow> (Raised e, s)
      | Some (Inr i) \<Rightarrow>
          (let deleted_todo = todos s ! i;
               s' = save_todos (s\<lparr>todos := take i (todos s) @ drop (Suc i) (todos s)\<rparr>)
           in case getitem deleted_todo ''title'' of
                Inl e \<Rightarrow> (Raised e, s')
              | Inr title \<Rightarrow> (Printed [TodoDeleted title], s'))
      | None \<Rightarrow> (Printed [TodoNotFound todo_id], s))"

definition complete_todo :: "string \<Rightarrow> int \<Rightarrow> state \<Rightarrow> outcome \<times> state" where
  "complete_todo now todo_id s = update_todo now todo_id [(''status'', PStr ''completed'')] s"

subsection \<open>Queries\<close>

text \<open>The reads made while printing the details of one todo in \<open>show_todo\<close>.\<close>

definition details_error :: "todo \<Rightarrow> py_error option" where
  "details_error t =
     first_error
       [read_key t ''id'', read_key t ''title'', read_key t ''description'',
        read_title_case t ''status'', read_title_case t ''priority'',
        read_key t ''created_at'', read_key t ''due_date'', read_key t ''completed_at'']"

definition show_todo :: "int \<Rightarrow> state \<Rightarrow> outcome \<times> state" where
  "show_todo todo_id s =
     (case find_todo todo_id (todos s) of
        Some (Inl e) \<Rightarrow> (Raised e, s)
      | Some (Inr i) \<Rightarrow>
          (case details_error (todos s ! i) of
             Some e \<Rightarrow> (Raised e, s)
           | None \<Rightarrow> (Printed [TodoDetails (todos s ! i)], s))
      | None \<Rightarrow> (Printed [TodoNotFound todo_id], s))"

text \<open>
  A list comprehension \<open>[todo for todo in todos if todo[k] == v]\<close>; reading a missing
  key raises.
\<close>

fun filter_field :: "string \<Rightarrow> string \<Rightarrow> todo list \<Rightarrow> py_error + todo list" where
  "filter_field k v [] = Inr []"
| "filter_field k v (t # ts) =
     (case getitem t k of
        Inl e \<Rightarrow> Inl e
      | Inr x \<Rightarrow>
          (case filter_field k v ts of
             Inl e \<Rightarrow> Inl e
           | Inr r \<Rightarrow> Inr (if x = PStr v then t # r else r)))"

text \<open>
  \<open>if status: filtered_todos = [...]\<close>: the filter runs when the argument is truthy,
  that is neither \<open>None\<close> nor the empty string.
\<close>

fun filter_if_set :: "string \<Rightarrow> string option \<Rightarrow> todo list \<Rightarrow> py_error + todo list" where
  "filter_if_set k None ts = Inr ts"
| "filter_if_set k (Some v) ts = (if v \<noteq> [] then filter_field k v ts else Inr ts)"

text \<open>\<open>{"high": .., "medium": .., "low": ..}[todo["priority"]]\<close>.\<close>

definition priority_icon_error :: "todo \<Rightarrow> py_error option" where
  "priority_icon_error t =
     (case map_of t ''priority'' of
        None \<Rightarrow> Some KeyError
      | Some v \<Rightarrow>
          if v \<in> set [PStr ''high'', PStr ''medium'', PStr ''low''] then None
          else Some KeyError)"

text \<open>The reads made while printing one item of the list in \<open>list_todos\<close>.\<close>

definition item_error :: "todo \<Rightarrow> py_error option" where
  "item_error t =
     first_error
       [read_key t ''status'', priority_icon_error t, read_key t ''id'', read_key t ''title'',
        read_key t ''description'', read_title_case t ''status'',
        read_title_case t ''priority'', read_slice t ''created_at'',
        read_key t ''due_date'', read_slice_if_set t ''completed_at'']"

definition list_todos :: "string option \<Rightarrow> string option \<Rightarrow> state \<Rightarrow> outcome \<times> state" where
  "list_todos status priority s =
     (case filter_if_set ''status'' status (todos s) of
        Inl e \<Rightarrow> (Raised e, s)
      | Inr by_status \<Rightarrow>
          (case filter_if_set ''priority'' priority by_status of
             Inl e \<Rightarrow> (Raised e, s)
           | Inr filtered_todos \<Rightarrow>
               if filtered_todos = [] then (Printed [NoTodosFound], s)
               else (case first_error (map item_error filtered_todos) of
                       Some e \<Rightarrow> (Raised e, s)
                     | None \<Rightarrow> (Printed [TodoList filtered_todos], s))))"

text \<open>
  In the search, \<open>lower\<close> stands for \<open>str.lower\<close>; every definition below takes it as
  its first argument. \<open>todo[k].lower()\<close>:
\<close>

definition lower_field :: "(string \<Rightarrow> string) \<Rightarrow> todo \<Rightarrow> string \<Rightarrow> py_error + string" where
  "lower_field lower t k =
     (case map_of t k of
        None \<Rightarrow> Inl KeyError
      | Some (PStr x) \<Rightarrow> Inr (lower x)
      | Some _ \<Rightarrow> Inl AttributeError)"

text \<open>
  The test of the search loop; \<open>or\<close> does not read the description when the title
  matches.
\<close>

definition matches :: "(string \<Rightarrow> string) \<Rightarrow> string \<Rightarrow> todo \<Rightarrow> py_error + bool" where
  "matches lower query_lower t =
     (case lower_field lower t ''title'' of
        Inl e \<Rightarrow> Inl e
      | Inr title \<Rightarrow>
          if str_in query_lower title then Inr True
          else (case lower_field lower t ''description'' of
                  Inl e \<Rightarrow> Inl e
                | Inr description \<Rightarrow> Inr (str_in query_lower description)))"

fun search_loop :: "(string \<Rightarrow> string) \<Rightarrow> string \<Rightarrow> todo list \<Rightarrow> py_error + todo list" where
  "search_loop lower query_lower [] = Inr []"
| "search_loop lower query_lower (t # ts) =
     (case matches lower query_lower t of
        Inl e \<Rightarrow> Inl e
      | Inr b \<Rightarrow>
          (case search_loop lower query_lower ts of
             Inl e \<Rightarrow> Inl e
           | Inr matching_todos \<Rightarrow> Inr (if b then t # matching_todos else matching_todos)))"

text \<open>The reads made while printing one search result.\<close>

definition result_error :: "todo \<Rightarrow> py_error option" where
  "result_error t = first_error [read_key t ''status'', read_key t ''id'', read_key t ''title'']"

definition search_todos :: "(string \<Rightarrow> string) \<Rightarrow> string \<Rightarrow> state \<Rightarrow> outcome \<times> state" where
  "search_todos lower query s =
     (case search_loop lower (lower query) (todos s) of
        Inl e \<Rightarrow> (Raised e, s)
      | Inr matching_todos \<Rightarrow>
          if matching_todos \<noteq> [] then
            (case first_error (map result_error matching_todos) of
               Some e \<Rightarrow> (Raised e, s)
             | None \<Rightarrow> (Printed [SearchResults query matching_todos], s))
          else (Printed [NoMatch query], s))"

subsection \<open>Floating-point arithmetic of the completion rate\<close>

text \<open>
  \<open>completed/total*100\<close> is computed in binary64 and printed with \<open>:.1f\<close>. A double is
  modelled by the rational it denotes. \<open>double_round\<close> rounds a rational to the nearest
  number with a 53-bit significand, ties to even; the exponent range is not modelled
  (quotients of list lengths lie far inside it).
\<close>

definition round_half_even :: "rat \<Rightarrow> int" where
  "round_half_even y =
     (let n = \<lfloor>y\<rfloor>; d = y - of_int n
      in if d < 1 / 2 then n else if 1 / 2 < d then n + 1 else if even n then n else n + 1)"

text \<open>The binary exponent of a positive rational: \<open>2 ^ ilog2 x \<le> x < 2 ^ (ilog2 x + 1)\<close>.\<close>

definition ilog2 :: "rat \<Rightarrow> int" where
  "ilog2 x =
     (let (p, q) = quotient_of x; k = bitlen p - bitlen q
      in if 2 powi k \<le> x then k else k - 1)"

definition double_round :: "rat \<Rightarrow> rat" where
  "double_round x =
     (if x = 0 then 0
      else (let e = ilog2 \<bar>x\<bar> - 52 in of_int (round_half_even (x / 2 powi e)) * 2 powi e))"

text \<open>\<open>a / b\<close> on integers: the correctly rounded quotient, or \<open>ZeroDivisionError\<close>.\<close>

definition true_div :: "int \<Rightarrow> int \<Rightarrow> py_error + rat" where
  "true_div a b =
     (if b = 0 then Inl ZeroDivisionError else Inr (double_round (of_int a / of_int b)))"

definition float_mul :: "rat \<Rightarrow> rat \<Rightarrow> rat" where
  "float_mul x y = double_round (x * y)"

text \<open>
  \<open>f"{x:.1f}"\<close>: the decimal with one fractional digit nearest to the double, ties to
  even, given as its number of tenths (\<open>333\<close> stands for \<open>33.3\<close>).
\<close>

definition format_1f :: "rat \<Rightarrow> int" where
  "format_1f x = round_half_even (x * 10)"

subsection \<open>Statistics\<close>

text \<open>
  The line \<open>f"Completion rate: {(completed/total*100):.1f}%" if total > 0 else "No todos"\<close>
  (\<open>tot\<close> is the source's \<open>total\<close>).
\<close>

definition completion_rate :: "nat \<Rightarrow> nat \<Rightarrow> py_error + rate" where
  "completion_rate completed tot =
     (if tot > 0 then
        (case true_div (int completed) (int tot) of
           Inl e \<Rightarrow> Inl e
         | Inr q \<Rightarrow> Inr (CompletionRate (format_1f (float_mul q 100))))
      else Inr NoTodos)"

text \<open>
  The loop \<open>priorities[priority] = priorities.get(priority, 0) + 1\<close> over the todos,
  started from the dictionary built so far.
\<close>

fun count_priorities :: "todo list \<Rightarrow> (pyval \<times> nat) list \<Rightarrow> py_error + (pyval \<times> nat) list" where
  "count_priorities [] priorities = Inr priorities"
| "count_priorities (t # ts) priorities =
     (case getitem t ''priority'' of
        Inl e \<Rightarrow> Inl e
      | Inr priority \<Rightarrow>
          count_priorities ts
            (AList.update priority
               ((case map_of priorities priority of None \<Rightarrow> 0 | Some n \<Rightarrow> n) + 1) priorities))"

text \<open>\<open>priority.title()\<close> while printing the breakdown.\<close>

definition breakdown_error :: "pyval \<times> nat \<Rightarrow> py_error option" where
  "breakdown_error pc = (case fst pc of PStr x \<Rightarrow> None | _ \<Rightarrow> Some AttributeError)"

definition get_statistics :: "state \<Rightarrow> outcome \<times> state" where
  "get_statistics s =
     (let tot = length (todos s)
      in case filter_field ''status'' ''completed'' (todos s) of
           Inl e \<Rightarrow> (Raised e, s)
         | Inr completed_todos \<Rightarrow>
             (let completed = length completed_todos; pending = int tot - int completed
              in case completion_rate completed tot of
                   Inl e \<Rightarrow> (Raised e, s)
                 | Inr rate \<Rightarrow>
                     (case count_priorities (todos s) [] of
                        Inl e \<Rightarrow> (Raised e, s)
                      | Inr priorities \<Rightarrow>
                          (case first_error (map breakdown_error priorities) of
                             Some e \<Rightarrow> (Raised e, s)
                           | None \<Rightarrow>
                               (Printed [Statistics tot completed pending rate priorities],
                                s)))))"

subsection \<open>Notions used to state the properties\<close>

text \<open>The string held by a field, and whether the field holds a string at all.\<close>

definition is_str :: "todo \<Rightarrow> string \<Rightarrow> bool" where
  "is_str t k = (case map_of t k of Some (PStr x) \<Rightarrow> True | _ \<Rightarrow> False)"


text \<open>
  A todo with the eight fields \<open>add_todo\<close> gives it, typed as the command line can set
  them: the priority one of the three choices, the completion time absent or a string.
\<close>

definition wf_todo :: "todo \<Rightarrow> bool" where
  "wf_todo t =
     (has_key ''id'' t \<and> is_str t ''title'' \<and> is_str t ''description''
      \<and> map_of t ''priority'' \<in> set [Some (PStr ''low''), Some (PStr ''medium''), Some (PStr ''high'')]
      \<and> is_str t ''status'' \<and> is_str t ''created_at'' \<and> has_key ''due_date'' t
      \<and> (map_of t ''completed_at'' = Some PNone \<or> is_str t ''completed_at''))"




text \<open>A todo matches a filter of \<open>list\<close> when the filter is absent or the field equals it.\<close>

definition passes :: "string \<Rightarrow> string option \<Rightarrow> todo \<Rightarrow> bool" where
  "passes k f t = (case f of None \<Rightarrow> True | Some v \<Rightarrow> map_of t k = Some (PStr v))"


definition list_spec :: "string option \<Rightarrow> string option \<Rightarrow> todo list \<Rightarrow> todo list" where
  "list_spec status priority ts =
     filter (\<lambda>t. passes ''status'' status t \<and> passes ''priority'' priority t) ts"

text \<open>The number of completed tasks.\<close>

definition completed_count :: "todo list \<Rightarrow> nat" where
  "completed_count ts = length (filter (\<lambda>t. map_of t ''status'' = Some (PStr ''completed'')) ts)"

text \<open>\<open>r\<close> tenths is the value \<open>x\<close> written with one decimal place: no tenth is nearer.\<close>

definition one_decimal_of :: "int \<Rightarrow> rat \<Rightarrow> bool" where
  "one_decimal_of r x = (\<bar>of_int r / 10 - x\<bar> \<le> 1 / 20)"

subsection \<open>Example states\<close>

text \<open>The manager of the first run, with no file present (see \<open>init_fresh\<close> below).\<close>

definition fresh :: state where
  "fresh = \<lparr>data_file = ''todos.json'', todos = [], files = Map.empty\<rparr>"

text \<open>One task added on the first run.\<close>

definition one_task :: state where
  "one_task = snd (add_todo ''2024-05-01T09:00:00'' ''Buy milk'' '''' ''high'' None fresh)"

text \<open>Two tasks added, the first deleted, a third added.\<close>

definition after_delete_and_add :: state where
  "after_delete_and_add =
     snd (add_todo ''2024-05-01T09:03:00'' ''Call bank'' '''' ''medium'' None
       (snd (delete_todo 1
         (snd (add_todo ''2024-05-01T09:01:00'' ''Pay rent'' '''' ''low'' None one_task)))))"

text \<open>Three tasks, the second completed.\<close>

definition three_tasks :: state where
  "three_tasks =
     snd (complete_todo ''2024-05-02T18:30:00'' 2
       (snd (add_todo ''2024-05-01T09:03:00'' ''Call bank'' ''ask about the MILK round'' ''medium''
               (Some ''2024-05-10'')
         (snd (add_todo ''2024-05-01T09:01:00'' ''Pay rent'' '''' ''low'' None one_task)))))"

text \<open>One task whose title is the three-letter Greek word, added on the first run.\<close>

definition greek_task :: state where
  "greek_task =
     snd (add_todo ''2024-05-01T09:00:00'' omicron_sigma_alpha '''' ''medium'' None fresh)"

section \<open>Properties\<close>

subsection \<open>Auxiliary facts\<close>

lemma map_sum_Suc_0 [simp]: "map_sum id Suc z \<noteq> Inr 0"
  by (cases z) auto

lemma map_sum_Suc_Suc [simp]: "map_sum id Suc z = Inr (Suc k) \<longleftrightarrow> z = Inr k"
  by (cases z) auto

lemma find_todo_None:
  "find_todo i ts = None \<longleftrightarrow> (\<forall>t\<in>set ts. has_key ''id'' t \<and> map_of t ''id'' \<noteq> Some (PInt i))"
  by (induction ts) (auto simp: getitem_def has_key_def split: option.splits)

lemma find_todo_first:
  "find_todo i ts = Some (Inr k) \<longleftrightarrow>
     (k < length ts \<and> map_of (ts ! k) ''id'' = Some (PInt i)
      \<and> (\<forall>j<k. has_key ''id'' (ts ! j) \<and> map_of (ts ! j) ''id'' \<noteq> Some (PInt i)))"
proof (induction ts arbitrary: k)
  case Nil
  then show ?case by simp
next
  case (Cons t ts)
  show ?case
  proof (cases k)
    case 0
    then show ?thesis
      by (auto simp: getitem_def has_key_def split: option.splits sum.splits)
  next
    case (Suc k')
    have "find_todo i (t # ts) = Some (Inr (Suc k')) \<longleftrightarrow>
            (has_key ''id'' t \<and> map_of t ''id'' \<noteq> Some (PInt i) \<and> find_todo i ts = Some (Inr k'))"
      by (auto simp: getitem_def has_key_def split: option.splits)
    also have "\<dots> \<longleftrightarrow> (has_key ''id'' t \<and> map_of t ''id'' \<noteq> Some (PInt i)
         \<and> k' < length ts \<and> map_of (ts ! k') ''id'' = Some (PInt i)
      \<and> (\<forall>j<k'. has_key ''id'' (ts ! j) \<and> map_of (ts ! j) ''id'' \<noteq> Some (PInt i)))"
      by (simp add: Cons.IH)
    also have "\<dots> \<longleftrightarrow> (Suc k' < length (t # ts) \<and> map_of ((t # ts) ! Suc k') ''id'' = Some (PInt i)
      \<and> (\<forall>j<Suc k'. has_key ''id'' ((t # ts) ! j) \<and> map_of ((t # ts) ! j) ''id'' \<noteq> Some (PInt i)))"
      by (auto simp: less_Suc_eq_0_disj)
    finally show ?thesis using Suc by simp
  qed
qed

lemma map_of_apply_kwargs_other:
  "k \<notin> fst ` set kwargs \<Longrightarrow> k \<noteq> ''completed_at'' \<Longrightarrow>
     map_of (apply_kwargs now kwargs t) k = map_of t k"
  by (induction kwargs arbitrary: t) (auto simp: update_conv' Let_def)

lemma apply_kwargs_completed:
  "has_key ''status'' t \<Longrightarrow>
     map_of (apply_kwargs now [(''status'', PStr ''completed'')] t) =
       (map_of t)(''status'' \<mapsto> PStr ''completed'', ''completed_at'' \<mapsto> PStr now)"
  by (simp add: update_conv' Let_def)

lemmas run_defs =
  fresh_def one_task_def after_delete_and_add_def init_def load_todos_def add_todo_def
  new_todo_def save_todos_def update_todo_def delete_todo_def complete_todo_def show_todo_def
  getitem_def has_key_def details_error_def read_key_def read_title_case_def Let_def

subsection \<open>Identifiers\<close>

text \<open>
  C1. The id given by \<open>add_todo\<close> is the number of stored tasks plus one, so it need not
  be unique once a task has been deleted: after adding two tasks, deleting the first and
  adding a third, the store holds two different tasks and both carry the id 2.
\<close>

theorem add_todo_reuses_id_after_delete:
  "map (\<lambda>t. (map_of t ''id'', map_of t ''title'')) (todos after_delete_and_add)
     = [(Some (PInt 2), Some (PStr ''Pay rent'')), (Some (PInt 2), Some (PStr ''Call bank''))]"
  by (simp add: run_defs)

subsection \<open>Adding\<close>

text \<open>
  C2, as the code has it. \<open>add_todo\<close> checks nothing: for every title, the empty one
  included, it reports the addition and appends exactly one task, with id the number of
  stored tasks plus one, that title, the given description and priority, status
  \<open>pending\<close>, \<open>created_at\<close> the time of the call, the given due date and no completion
  time; it writes the whole collection to the backing file and changes nothing else.
\<close>

theorem add_todo_accepts_every_title:
  "add_todo now title description priority due_date s =
     (Printed [TodoAdded title],
      s\<lparr>todos := todos s @
           [[(''id'', PInt (int (length (todos s)) + 1)),
             (''title'', PStr title),
             (''description'', PStr description),
             (''priority'', PStr priority),
             (''status'', PStr ''pending''),
             (''created_at'', PStr now),
             (''due_date'', (case due_date of None \<Rightarrow> PNone | Some d \<Rightarrow> PStr d)),
             (''completed_at'', PNone)]],
        files := (files s)(data_file s \<mapsto> JsonFile (todos s @
           [[(''id'', PInt (int (length (todos s)) + 1)),
             (''title'', PStr title),
             (''description'', PStr description),
             (''priority'', PStr priority),
             (''status'', PStr ''pending''),
             (''created_at'', PStr now),
             (''due_date'', (case due_date of None \<Rightarrow> PNone | Some d \<Rightarrow> PStr d)),
             (''completed_at'', PNone)]]))\<rparr>)"
  by (simp add: add_todo_def save_todos_def new_todo_def Let_def)

text \<open>
  C2 as stated fails: with the empty title on the first run no error is raised, a task
  with the empty title is stored and the file is written.
\<close>

theorem add_todo_empty_title_counterexample:
  "add_todo ''2024-05-01T09:00:00'' '''' '''' ''medium'' None
     \<lparr>data_file = ''todos.json'', todos = [], files = Map.empty\<rparr>
   = (Printed [TodoAdded ''''],
      \<lparr>data_file = ''todos.json'',
       todos = [[(''id'', PInt 1), (''title'', PStr ''''), (''description'', PStr ''''),
                 (''priority'', PStr ''medium''), (''status'', PStr ''pending''),
                 (''created_at'', PStr ''2024-05-01T09:00:00''), (''due_date'', PNone),
                 (''completed_at'', PNone)]],
       files = [''todos.json'' \<mapsto> JsonFile
                [[(''id'', PInt 1), (''title'', PStr ''''), (''description'', PStr ''''),
                 (''priority'', PStr ''medium''), (''status'', PStr ''pending''),
                 (''created_at'', PStr ''2024-05-01T09:00:00''), (''due_date'', PNone),
                 (''completed_at'', PNone)]]]\<rparr>)"
  by (simp add: add_todo_def save_todos_def new_todo_def Let_def)

subsection \<open>Updating\<close>

text \<open>
  C3, as the code has it. \<open>update_todo\<close> overwrites every key of \<open>kwargs\<close> that the
  record already has. When the task at position \<open>k\<close> is the first with id \<open>i\<close> and
  \<open>kwargs\<close> names neither \<open>id\<close> nor \<open>created_at\<close>, the call succeeds, these two fields
  of that task are as before, and no other task changes.
\<close>

theorem update_todo_keeps_id_created_at:
  assumes "k < length (todos s)"
    and "map_of (todos s ! k) ''id'' = Some (PInt i)"
    and "\<forall>j<k. has_key ''id'' (todos s ! j) \<and> map_of (todos s ! j) ''id'' \<noteq> Some (PInt i)"
    and "''id'' \<notin> fst ` set kwargs" and "''created_at'' \<notin> fst ` set kwargs"
  shows "fst (update_todo now i kwargs s) = Printed [TodoUpdated i]
       \<and> length (todos (snd (update_todo now i kwargs s))) = length (todos s)
       \<and> map_of (todos (snd (update_todo now i kwargs s)) ! k) ''id'' = map_of (todos s ! k) ''id''
       \<and> map_of (todos (snd (update_todo now i kwargs s)) ! k) ''created_at''
           = map_of (todos s ! k) ''created_at''
       \<and> (\<forall>j. j \<noteq> k \<longrightarrow> todos (snd (update_todo now i kwargs s)) ! j = todos s ! j)"
proof -
  from assms(1-3) have "find_todo i (todos s) = Some (Inr k)"
    by (simp add: find_todo_first)
  then have "update_todo now i kwargs s =
      (Printed [TodoUpdated i],
       save_todos (s\<lparr>todos := (todos s)[k := apply_kwargs now kwargs (todos s ! k)]\<rparr>))"
    by (simp add: update_todo_def)
  with assms(1,4,5) show ?thesis
    by (simp add: save_todos_def map_of_apply_kwargs_other)
qed

theorem update_todo_keeps_id_created_at_witness:
  "0 < length (todos one_task)
   \<and> map_of (todos one_task ! 0) ''id'' = Some (PInt 1)
   \<and> ''id'' \<notin> fst ` set [(''title'', PStr ''Buy oat milk'')]
   \<and> ''created_at'' \<notin> fst ` set [(''title'', PStr ''Buy oat milk'')]
   \<and> fst (update_todo ''2024-05-02T08:00:00'' 1 [(''title'', PStr ''Buy oat milk'')] one_task)
       = Printed [TodoUpdated 1]
   \<and> map_of (todos (snd (update_todo ''2024-05-02T08:00:00'' 1
                [(''title'', PStr ''Buy oat milk'')] one_task)) ! 0) ''id'' = Some (PInt 1)
   \<and> map_of (todos (snd (update_todo ''2024-05-02T08:00:00'' 1
                [(''title'', PStr ''Buy oat milk'')] one_task)) ! 0) ''created_at''
       = Some (PStr ''2024-05-01T09:00:00'')"
proof -
  have h1: "0 < length (todos one_task)"
    and h2: "map_of (todos one_task ! 0) ''id'' = Some (PInt 1)"
    and h3: "\<forall>j<0. has_key ''id'' (todos one_task ! j)
               \<and> map_of (todos one_task ! j) ''id'' \<noteq> Some (PInt 1)"
    and h4: "''id'' \<notin> fst ` set [(''title'', PStr ''Buy oat milk'')]"
    and h5: "''created_at'' \<notin> fst ` set [(''title'', PStr ''Buy oat milk'')]"
    and c: "map_of (todos one_task ! 0) ''created_at'' = Some (PStr ''2024-05-01T09:00:00'')"
    by (simp_all add: run_defs)
  show ?thesis
    using update_todo_keeps_id_created_at [OF h1 h2 h3 h4 h5, of "''2024-05-02T08:00:00''"]
      h1 h2 h4 h5 c
    by simp
qed

text \<open>
  C3 as stated fails: a change set naming \<open>id\<close> and \<open>created_at\<close> overwrites both.
\<close>

theorem update_todo_overwrites_id_counterexample:
  "map_of (todos one_task ! 0) ''id'' = Some (PInt 1)
   \<and> map_of (todos one_task ! 0) ''created_at'' = Some (PStr ''2024-05-01T09:00:00'')
   \<and> fst (update_todo ''2024-05-02T08:00:00'' 1
            [(''id'', PInt 99), (''created_at'', PStr ''1999-01-01T00:00:00'')] one_task)
       = Printed [TodoUpdated 1]
   \<and> map_of (todos (snd (update_todo ''2024-05-02T08:00:00'' 1
            [(''id'', PInt 99), (''created_at'', PStr ''1999-01-01T00:00:00'')] one_task)) ! 0)
          ''id'' = Some (PInt 99)
   \<and> map_of (todos (snd (update_todo ''2024-05-02T08:00:00'' 1
            [(''id'', PInt 99), (''created_at'', PStr ''1999-01-01T00:00:00'')] one_task)) ! 0)
          ''created_at'' = Some (PStr ''1999-01-01T00:00:00'')"
  by (simp add: run_defs)

subsection \<open>Unknown ids\<close>

text \<open>
  C4. When every stored task has an id and none of them is \<open>i\<close>, each of
  \<open>update_todo\<close>, \<open>delete_todo\<close>, \<open>complete_todo\<close> and \<open>show_todo\<close> reports that the
  todo was not found and returns the state as it was: the same tasks and the same files,
  so nothing is mutated, removed or written.
\<close>

theorem unknown_id_not_found:
  assumes "\<forall>t\<in>set (todos s). has_key ''id'' t \<and> map_of t ''id'' \<noteq> Some (PInt i)"
  shows "update_todo now i kwargs s = (Printed [TodoNotFound i], s)
       \<and> delete_todo i s = (Printed [TodoNotFound i], s)
       \<and> complete_todo now i s = (Printed [TodoNotFound i], s)
       \<and> show_todo i s = (Printed [TodoNotFound i], s)"
proof -
  from assms have "find_todo i (todos s) = None"
    by (simp add: find_todo_None)
  then show ?thesis
    by (simp add: update_todo_def delete_todo_def complete_todo_def show_todo_def)
qed

theorem unknown_id_not_found_witness:
  "list_all (\<lambda>t. has_key ''id'' t \<and> map_of t ''id'' \<noteq> Some (PInt 7)) (todos one_task)
   \<and> update_todo ''2024-05-02T08:00:00'' 7 [(''title'', PStr ''Buy tea'')] one_task
       = (Printed [TodoNotFound 7], one_task)
   \<and> delete_todo 7 one_task = (Printed [TodoNotFound 7], one_task)
   \<and> complete_todo ''2024-05-02T08:00:00'' 7 one_task = (Printed [TodoNotFound 7], one_task)
   \<and> show_todo 7 one_task = (Printed [TodoNotFound 7], one_task)"
proof -
  have h: "\<forall>t\<in>set (todos one_task). has_key ''id'' t \<and> map_of t ''id'' \<noteq> Some (PInt 7)"
    by (simp add: run_defs)
  show ?thesis
    using h unknown_id_not_found [OF h, of "''2024-05-02T08:00:00''" "[(''title'', PStr ''Buy tea'')]"]
    by (simp add: list_all_iff)
qed

subsection \<open>Deleting\<close>

text \<open>
  When exactly one stored task has the id (and it has a title to print), \<open>delete_todo\<close>
  removes that task and no other, and \<open>show_todo\<close> afterwards reports that the todo
  was not found.
\<close>

lemma delete_todo_unique_id:
  assumes "k < length (todos s)"
    and "map_of (todos s ! k) ''id'' = Some (PInt i)"
    and "\<forall>j<length (todos s). j \<noteq> k \<longrightarrow>
           has_key ''id'' (todos s ! j) \<and> map_of (todos s ! j) ''id'' \<noteq> Some (PInt i)"
    and "has_key ''title'' (todos s ! k)"
  shows "todos (snd (delete_todo i s)) = take k (todos s) @ drop (Suc k) (todos s)"
    and "Suc (length (todos (snd (delete_todo i s)))) = length (todos s)"
    and "fst (show_todo i (snd (delete_todo i s))) = Printed [TodoNotFound i]"
proof -
  let ?ts = "take k (todos s) @ drop (Suc k) (todos s)"
  from assms(1-3) have "find_todo i (todos s) = Some (Inr k)"
    by (simp add: find_todo_first)
  with assms(4) have d: "snd (delete_todo i s) = save_todos (s\<lparr>todos := ?ts\<rparr>)"
    by (auto simp: delete_todo_def getitem_def has_key_def Let_def split: option.splits)
  then show t: "todos (snd (delete_todo i s)) = ?ts"
    by (simp add: save_todos_def)
  from assms(1) show "Suc (length (todos (snd (delete_todo i s)))) = length (todos s)"
    by (simp add: t)
  have "\<forall>t\<in>set ?ts. has_key ''id'' t \<and> map_of t ''id'' \<noteq> Some (PInt i)"
  proof
    fix t assume "t \<in> set ?ts"
    then consider "t \<in> set (take k (todos s))" | "t \<in> set (drop (Suc k) (todos s))"
      by auto
    then obtain j where "j < length (todos s)" and "j \<noteq> k" and "t = todos s ! j"
    proof cases
      case 1
      then obtain j where "j < k" and "t = todos s ! j"
        using assms(1) by (auto simp: in_set_conv_nth)
      with assms(1) that[of j] show ?thesis by simp
    next
      case 2
      then obtain j where "j < length (todos s) - Suc k" and "t = todos s ! (Suc k + j)"
        by (auto simp: in_set_conv_nth)
      with that[of "Suc k + j"] show ?thesis by simp
    qed
    with assms(3) show "has_key ''id'' t \<and> map_of t ''id'' \<noteq> Some (PInt i)"
      by simp
  qed
  then have "find_todo i (todos (snd (delete_todo i s))) = None"
    by (simp add: t find_todo_None)
  then show "fst (show_todo i (snd (delete_todo i s))) = Printed [TodoNotFound i]"
    by (simp add: show_todo_def)
qed

text \<open>
  C5. In the state reached by adding two tasks, deleting the first and adding a third,
  two tasks hold the id 2. \<open>delete_todo 2\<close> removes one of them, and \<open>show_todo 2\<close>
  afterwards still finds a task: it prints the details of the remaining one instead of
  reporting that the todo was not found.
\<close>

theorem show_after_delete_still_finds:
  "fst (delete_todo 2 after_delete_and_add) = Printed [TodoDeleted (PStr ''Pay rent'')]
   \<and> length (todos after_delete_and_add) = 2
   \<and> length (todos (snd (delete_todo 2 after_delete_and_add))) = 1
   \<and> fst (show_todo 2 (snd (delete_todo 2 after_delete_and_add)))
       = Printed [TodoDetails
           [(''id'', PInt 2), (''title'', PStr ''Call bank''), (''description'', PStr ''''),
            (''priority'', PStr ''medium''), (''status'', PStr ''pending''),
            (''created_at'', PStr ''2024-05-01T09:03:00''), (''due_date'', PNone),
            (''completed_at'', PNone)]]"
  by (simp add: run_defs)

subsection \<open>Completing\<close>

text \<open>
  C6. \<open>complete_todo\<close> is \<open>update_todo\<close> with the single change \<open>status = completed\<close>.
  When the task at position \<open>k\<close> is the first with id \<open>i\<close> and has a status field, the
  call succeeds and leaves that task with status \<open>completed\<close> and with \<open>completed_at\<close>
  the time of the call, which is a string and so not \<open>None\<close>; a second call succeeds too
  and the status is still \<open>completed\<close>.
\<close>

theorem complete_todo_sets_completed:
  assumes "k < length (todos s)"
    and "map_of (todos s ! k) ''id'' = Some (PInt i)"
    and "\<forall>j<k. has_key ''id'' (todos s ! j) \<and> map_of (todos s ! j) ''id'' \<noteq> Some (PInt i)"
    and "has_key ''status'' (todos s ! k)"
  shows "complete_todo now i s = update_todo now i [(''status'', PStr ''completed'')] s
       \<and> fst (complete_todo now i s) = Printed [TodoUpdated i]
       \<and> map_of (todos (snd (complete_todo now i s)) ! k) ''status'' = Some (PStr ''completed'')
       \<and> map_of (todos (snd (complete_todo now i s)) ! k) ''completed_at'' = Some (PStr now)
       \<and> PStr now \<noteq> PNone
       \<and> fst (complete_todo now' i (snd (complete_todo now i s))) = Printed [TodoUpdated i]
       \<and> map_of (todos (snd (complete_todo now' i (snd (complete_todo now i s)))) ! k) ''status''
           = Some (PStr ''completed'')"
proof -
  define c where "c = [(''status'', PStr ''completed'')]"
  define t1 where "t1 = apply_kwargs now c (todos s ! k)"
  define s1 where "s1 = save_todos (s\<lparr>todos := (todos s)[k := t1]\<rparr>)"
  from assms(1-3) have f: "find_todo i (todos s) = Some (Inr k)"
    by (simp add: find_todo_first)
  then have c1: "complete_todo now i s = (Printed [TodoUpdated i], s1)"
    by (simp add: update_todo_def complete_todo_def s1_def t1_def c_def)
  have t: "map_of t1 =
      (map_of (todos s ! k))(''status'' \<mapsto> PStr ''completed'', ''completed_at'' \<mapsto> PStr now)"
    unfolding t1_def c_def using assms(4) by (rule apply_kwargs_completed)
  have ts1: "todos s1 = (todos s)[k := t1]"
    by (simp add: s1_def save_todos_def)
  have k1: "todos s1 ! k = t1"
    using assms(1) by (simp add: ts1)
  have "find_todo i (todos s1) = Some (Inr k)"
    unfolding ts1 find_todo_first using assms(1-3) t
    by (simp add: has_key_def nth_list_update)
  then have c2: "complete_todo now' i s1 =
       (Printed [TodoUpdated i],
        save_todos (s1\<lparr>todos := (todos s1)[k := apply_kwargs now' c t1]\<rparr>))"
    by (simp add: update_todo_def complete_todo_def k1 c_def)
  have hs: "has_key ''status'' t1"
    using t by (simp add: has_key_def)
  have t2: "map_of (apply_kwargs now' c t1) ''status'' = Some (PStr ''completed'')"
    unfolding c_def using apply_kwargs_completed[OF hs, of now'] by simp
  have l: "k < length (todos s1)"
    using assms(1) by (simp add: ts1)
  have "complete_todo now i s = update_todo now i [(''status'', PStr ''completed'')] s"
    by (simp add: complete_todo_def)
  moreover have "map_of (todos (snd (complete_todo now i s)) ! k) ''status''
      = Some (PStr ''completed'')"
    by (simp add: c1 k1 t)
  moreover have "map_of (todos (snd (complete_todo now i s)) ! k) ''completed_at''
      = Some (PStr now)"
    by (simp add: c1 k1 t)
  moreover have "map_of (todos (snd (complete_todo now' i (snd (complete_todo now i s)))) ! k)
      ''status'' = Some (PStr ''completed'')"
    using l t2 by (simp add: c1 c2 save_todos_def)
  moreover have "fst (complete_todo now i s) = Printed [TodoUpdated i]"
    by (simp add: c1)
  moreover have "fst (complete_todo now' i (snd (complete_todo now i s)))
      = Printed [TodoUpdated i]"
    by (simp add: c1 c2)
  moreover have "PStr now \<noteq> PNone"
    by simp
  ultimately show ?thesis
    by blast
qed

theorem complete_todo_sets_completed_witness:
  "0 < length (todos one_task)
   \<and> map_of (todos one_task ! 0) ''id'' = Some (PInt 1)
   \<and> has_key ''status'' (todos one_task ! 0)
   \<and> map_of (todos one_task ! 0) ''status'' = Some (PStr ''pending'')
   \<and> map_of (todos (snd (complete_todo ''2024-05-03T10:00:00'' 1 one_task)) ! 0) ''status''
       = Some (PStr ''completed'')
   \<and> map_of (todos (snd (complete_todo ''2024-05-03T10:00:00'' 1 one_task)) ! 0) ''completed_at''
       = Some (PStr ''2024-05-03T10:00:00'')
   \<and> map_of (todos (snd (complete_todo ''2024-05-04T11:00:00'' 1
         (snd (complete_todo ''2024-05-03T10:00:00'' 1 one_task)))) ! 0) ''status''
       = Some (PStr ''completed'')"
proof -
  have h1: "0 < length (todos one_task)"
    and h2: "map_of (todos one_task ! 0) ''id'' = Some (PInt 1)"
    and h3: "\<forall>j<0. has_key ''id'' (todos one_task ! j)
               \<and> map_of (todos one_task ! j) ''id'' \<noteq> Some (PInt 1)"
    and h4: "has_key ''status'' (todos one_task ! 0)"
    and p: "map_of (todos one_task ! 0) ''status'' = Some (PStr ''pending'')"
    by (simp_all add: run_defs)
  show ?thesis
    using complete_todo_sets_completed [OF h1 h2 h3 h4,
        of "''2024-05-03T10:00:00''" "''2024-05-04T11:00:00''"] h1 h2 h4 p
    by blast
qed


subsection \<open>Loading\<close>

lemma init_fresh: "init ''todos.json'' Map.empty = Started [] fresh"
  by (simp add: init_def load_todos_def fresh_def)

text \<open>
  The two cases that \<open>load_todos\<close> handles: with no file it returns the empty list
  without printing, and on text that is not JSON it prints the read error and returns
  the empty list.
\<close>

lemma load_todos_handled:
  "(fs path = None \<longrightarrow> load_todos path fs = Inr ([], Tasks []))
   \<and> (fs path = Some Unparsable \<longrightarrow> load_todos path fs = Inr ([ReadError], Tasks []))"
  by (simp add: load_todos_def)

text \<open>
  C7. A backing file whose bytes are not text makes \<open>load_todos\<close> raise
  \<open>UnicodeDecodeError\<close>, and the constructor of the manager with it: nothing is
  reported and no empty list is returned. A backing file holding the JSON object
  \<open>{"a": 1}\<close> is returned as that object, without a report.
\<close>

theorem load_todos_undecodable_raises:
  "load_todos ''todos.json'' [''todos.json'' \<mapsto> Undecodable] = Inl UnicodeDecodeError
   \<and> init ''todos.json'' [''todos.json'' \<mapsto> Undecodable] = Crashed UnicodeDecodeError
   \<and> load_todos ''todos.json'' [''todos.json'' \<mapsto> JsonOther (JObject [(''a'', JNumber 1)])]
       = Inr ([], NotTasks (JObject [(''a'', JNumber 1)]))
   \<and> init ''todos.json'' [''todos.json'' \<mapsto> JsonOther (JObject [(''a'', JNumber 1)])]
       = Misloaded [] (JObject [(''a'', JNumber 1)])"
  by (simp add: load_todos_def init_def)

subsection \<open>Searching\<close>











lemma first_error_None: "(\<forall>e\<in>set es. e = None) \<Longrightarrow> first_error es = None"
  by (induction es rule: first_error.induct) auto


lemma wf_item_error: "wf_todo t \<Longrightarrow> item_error t = None"
  by (auto simp: wf_todo_def item_error_def read_key_def is_str_def has_key_def
      priority_icon_error_def read_title_case_def read_slice_def read_slice_if_set_def truthy_def
      split: option.splits pyval.splits)

lemma wf_details_error: "wf_todo t \<Longrightarrow> details_error t = None"
  by (auto simp: wf_todo_def details_error_def read_key_def is_str_def has_key_def
      read_title_case_def split: option.splits pyval.splits)


lemmas query_defs =
  three_tasks_def run_defs wf_todo_def is_str_def list_todos_def search_todos_def
  item_error_def result_error_def priority_icon_error_def read_slice_def read_slice_if_set_def
  truthy_def matches_def lower_field_def ascii_lower_def ascii_lower_char_def
  greek_task_def greek_sample_lower_def omicron_sigma_def omicron_sigma_alpha_def

lemma new_todo_wf:
  "priority \<in> set [''low'', ''medium'', ''high''] \<Longrightarrow>
     wf_todo (new_todo now n title description priority due_date)"
  by (auto simp: wf_todo_def new_todo_def has_key_def is_str_def)





subsection \<open>Listing\<close>

lemma filter_field_eq:
  "\<forall>t\<in>set ts. has_key k t \<Longrightarrow>
     filter_field k v ts = Inr (filter (\<lambda>t. map_of t k = Some (PStr v)) ts)"
  by (induction ts) (auto simp: getitem_def has_key_def split: option.splits)


lemma filter_if_set_eq:
  "\<forall>t\<in>set ts. has_key k t \<Longrightarrow> f \<noteq> Some [] \<Longrightarrow>
     filter_if_set k f ts = Inr (filter (passes k f) ts)"
  by (cases f) (auto simp: passes_def filter_field_eq intro!: filter_cong)

lemma wf_keys: "wf_todo t \<Longrightarrow> has_key ''status'' t \<and> has_key ''priority'' t"
  by (auto simp: wf_todo_def is_str_def has_key_def split: option.splits)


text \<open>
  C10. A filter of \<open>list_todos\<close> is absent or is a status or priority value, which is
  never the empty string. On a collection of well-formed todos, for every such pair of
  filters, \<open>list_todos\<close> prints exactly the todos that match every filter given, in the
  order of the collection, and leaves the state alone; when there is none it prints the
  no-todos line. With no filter given the todos selected are the whole collection.
\<close>

theorem list_todos_filters:
  assumes "\<forall>t\<in>set (todos s). wf_todo t"
    and "status \<noteq> Some []" and "priority \<noteq> Some []"
  shows "list_todos status priority s =
           (Printed [if list_spec status priority (todos s) = [] then NoTodosFound
                     else TodoList (list_spec status priority (todos s))], s)
       \<and> list_spec None None (todos s) = todos s"
proof -
  from assms have 1: "filter_if_set ''status'' status (todos s)
      = Inr (filter (passes ''status'' status) (todos s))"
    by (intro filter_if_set_eq) (simp_all add: wf_keys)
  from assms have 2: "filter_if_set ''priority'' priority (filter (passes ''status'' status) (todos s))
      = Inr (list_spec status priority (todos s))"
    unfolding list_spec_def
    by (subst filter_if_set_eq) (auto simp: wf_keys conj_commute)
  from assms have 3: "first_error (map item_error (list_spec status priority (todos s))) = None"
    by (intro first_error_None) (auto simp: list_spec_def wf_item_error)
  have "list_todos status priority s =
           (Printed [if list_spec status priority (todos s) = [] then NoTodosFound
                     else TodoList (list_spec status priority (todos s))], s)"
    by (simp add: list_todos_def 1 2 3)
  moreover have "list_spec None None (todos s) = todos s"
    by (simp add: list_spec_def passes_def)
  ultimately show ?thesis by blast
qed

theorem list_todos_filters_witness:
  "list_all wf_todo (todos three_tasks)
   \<and> Some ''pending'' \<noteq> Some [] \<and> Some ''high'' \<noteq> Some []
   \<and> map (\<lambda>t. (map_of t ''status'', map_of t ''priority'')) (todos three_tasks)
       = [(Some (PStr ''pending''), Some (PStr ''high'')),
          (Some (PStr ''completed''), Some (PStr ''low'')),
          (Some (PStr ''pending''), Some (PStr ''medium''))]
   \<and> list_todos (Some ''pending'') (Some ''high'') three_tasks
       = (Printed [TodoList [todos three_tasks ! 0]], three_tasks)
   \<and> list_spec (Some ''pending'') (Some ''high'') (todos three_tasks) = [todos three_tasks ! 0]
   \<and> list_todos (Some ''completed'') None three_tasks
       = (Printed [TodoList [todos three_tasks ! 1]], three_tasks)
   \<and> list_spec None None (todos three_tasks) = todos three_tasks"
proof -
  have h: "\<forall>t\<in>set (todos three_tasks). wf_todo t"
    by (simp add: query_defs)
  have p: "Some ''pending'' \<noteq> Some []" and q: "Some ''high'' \<noteq> Some []"
    by simp_all
  have t: "map (\<lambda>t. (map_of t ''status'', map_of t ''priority'')) (todos three_tasks)
       = [(Some (PStr ''pending''), Some (PStr ''high'')),
          (Some (PStr ''completed''), Some (PStr ''low'')),
          (Some (PStr ''pending''), Some (PStr ''medium''))]"
    by (simp add: query_defs)
  have e: "list_todos (Some ''pending'') (Some ''high'') three_tasks
       = (Printed [TodoList [todos three_tasks ! 0]], three_tasks)"
    by (simp add: query_defs)
  have e': "list_todos (Some ''completed'') None three_tasks
       = (Printed [TodoList [todos three_tasks ! 1]], three_tasks)"
    by (simp add: query_defs)
  from list_todos_filters [OF h p q]
  have c: "list_todos (Some ''pending'') (Some ''high'') three_tasks =
           (Printed [if list_spec (Some ''pending'') (Some ''high'') (todos three_tasks) = []
                     then NoTodosFound
                     else TodoList (list_spec (Some ''pending'') (Some ''high'')
                                      (todos three_tasks))], three_tasks)"
    and a: "list_spec None None (todos three_tasks) = todos three_tasks"
    by blast+
  from c e have "list_spec (Some ''pending'') (Some ''high'') (todos three_tasks)
      = [todos three_tasks ! 0]"
    by (auto split: if_splits)
  with h p q t e e' a show ?thesis
    unfolding list_all_iff by blast
qed

subsection \<open>Statistics\<close>

lemma round_half_even_error: "\<bar>of_int (round_half_even y) - y\<bar> \<le> 1 / 2"
proof -
  have "of_int \<lfloor>y\<rfloor> \<le> y" and "y < of_int \<lfloor>y\<rfloor> + 1"
    by linarith+
  then show ?thesis
    by (auto simp: round_half_even_def Let_def)
qed

lemma ilog2_bounds:
  assumes "0 < x"
  shows "2 powi ilog2 x \<le> x" and "x < 2 powi (ilog2 x + 1)"
proof -
  obtain p q where pq: "quotient_of x = (p, q)"
    by (cases "quotient_of x")
  then have q: "0 < q" and x: "x = of_int p / of_int q"
    by (simp_all add: quotient_of_denom_pos quotient_of_div)
  with assms have p: "0 < p"
    by (simp add: zero_less_divide_iff)
  define lp lq where "lp = bitlen p" and "lq = bitlen q"
  have lp: "1 \<le> lp" and lq: "1 \<le> lq"
    using p q by (simp_all add: lp_def lq_def bitlen_alt_def)
  from bitlen_bounds[OF p] have "2 ^ nat (lp - 1) \<le> p" and "p < 2 ^ nat lp"
    by (simp_all add: lp_def)
  then have p1: "(2::rat) ^ nat (lp - 1) \<le> of_int p" and p2: "(of_int p :: rat) < 2 ^ nat lp"
    by (metis of_int_le_iff of_int_numeral of_int_power, metis of_int_less_iff of_int_numeral of_int_power)
  from bitlen_bounds[OF q] have "2 ^ nat (lq - 1) \<le> q" and "q < 2 ^ nat lq"
    by (simp_all add: lq_def)
  then have q1: "(2::rat) ^ nat (lq - 1) \<le> of_int q" and q2: "(of_int q :: rat) < 2 ^ nat lq"
    by (metis of_int_le_iff of_int_numeral of_int_power, metis of_int_less_iff of_int_numeral of_int_power)
  have q0: "(0::rat) < of_int q" using q by simp
  have "(2::rat) powi (lp - lq - 1) = 2 powi (lp - 1) / 2 powi lq"
    by (simp add: power_int_diff)
  also have "\<dots> = 2 ^ nat (lp - 1) / 2 ^ nat lq"
    using lp lq by (simp add: power_int_def)
  also have "\<dots> \<le> of_int p / of_int q"
    using p1 q2 q0 p by (intro frac_le) simp_all
  finally have low: "(2::rat) powi (lp - lq - 1) \<le> x"
    by (simp add: x)
  have "of_int p / of_int q < (2::rat) ^ nat lp / 2 ^ nat (lq - 1)"
    using p2 q1 q0 p by (intro frac_less) simp_all
  also have "\<dots> = 2 powi lp / 2 powi (lq - 1)"
    using lp lq by (simp add: power_int_def)
  also have "\<dots> = 2 powi (lp - lq + 1)"
    by (simp add: power_int_diff[symmetric] algebra_simps)
  finally have high: "x < 2 powi (lp - lq + 1)"
    by (simp add: x)
  have il: "ilog2 x = (if 2 powi (lp - lq) \<le> x then lp - lq else lp - lq - 1)"
    by (simp add: ilog2_def pq lp_def lq_def Let_def)
  show "2 powi ilog2 x \<le> x"
    using low by (simp add: il)
  show "x < 2 powi (ilog2 x + 1)"
    using high by (auto simp: il not_le)
qed

lemma double_round_error:
  assumes "0 < x"
  shows "\<bar>double_round x - x\<bar> \<le> x / 2 ^ 53"
proof -
  define P where "P = (2::rat) powi (ilog2 x - 52)"
  have P: "0 < P"
    by (simp add: P_def)
  have "(2::rat) powi (ilog2 x - 52 + 52) = 2 powi (ilog2 x - 52) * 2 powi 52"
    by (rule power_int_add) simp
  moreover have "(2::rat) powi 52 = 2 ^ 52"
    by (simp add: power_int_def)
  ultimately have "P * 2 ^ 52 = 2 powi ilog2 x"
    by (simp add: P_def)
  then have "P * 2 ^ 52 \<le> x"
    using ilog2_bounds(1)[OF assms] by simp
  then have Px: "P / 2 \<le> x / 2 ^ 53"
    by simp
  have dr: "double_round x = of_int (round_half_even (x / P)) * P"
    using assms by (simp add: double_round_def P_def Let_def)
  have "double_round x - x = (of_int (round_half_even (x / P)) - x / P) * P"
    using P by (simp add: dr algebra_simps)
  then have "\<bar>double_round x - x\<bar> = \<bar>of_int (round_half_even (x / P)) - x / P\<bar> * P"
    using P by (simp add: abs_mult)
  also have "\<dots> \<le> 1 / 2 * P"
    using P round_half_even_error[of "x / P"] by (intro mult_right_mono) simp_all
  finally show ?thesis
    using Px by simp
qed

lemma rate_error:
  fixes c t :: int
  assumes "0 < c" and "c \<le> t"
  shows "\<bar>double_round (double_round (of_int c / of_int t) * 100) * 10 - 1000 * of_int c / of_int t\<bar>
           \<le> 2001 / 2 ^ 53"
proof -
  define x :: rat where "x = of_int c / of_int t"
  define r1 where "r1 = double_round x"
  define r2 where "r2 = double_round (r1 * 100)"
  from assms have x: "0 < x" "x \<le> 1"
    by (simp_all add: x_def)
  have e1: "\<bar>r1 - x\<bar> \<le> x / 2 ^ 53"
    unfolding r1_def using x(1) by (rule double_round_error)
  have d: "x / 2 ^ 53 \<le> 1 / 2 ^ 53" "x / 2 ^ 53 < x"
    using x by simp_all
  have r1: "0 < r1" "r1 \<le> 1 + 1 / 2 ^ 53"
    using e1 d x by linarith+
  have e2: "\<bar>r2 - r1 * 100\<bar> \<le> r1 * 100 / 2 ^ 53"
    unfolding r2_def using r1(1) by (intro double_round_error) simp
  have a: "r1 - x \<le> x / 2 ^ 53" "x - r1 \<le> x / 2 ^ 53"
    using e1 by linarith+
  have b: "r2 - r1 * 100 \<le> r1 * 100 / 2 ^ 53" "r1 * 100 - r2 \<le> r1 * 100 / 2 ^ 53"
    using e2 by linarith+
  have k: "10 * (r1 * 100 / 2 ^ 53) + 1000 * (x / 2 ^ 53) \<le> 2001 / 2 ^ 53"
    using r1(2) x(2) by simp
  have "\<bar>r2 * 10 - 1000 * x\<bar> \<le> 2001 / 2 ^ 53"
    using a b k by linarith
  then show ?thesis
    by (simp add: r2_def r1_def x_def)
qed

lemma near_half_gap:
  fixes c t m :: int and w h :: rat
  assumes t: "0 < t" and tb: "t < 2 ^ 41"
    and w: "w = 1000 * of_int c / of_int t" and h: "h = of_int m / 2"
    and pos: "w < h"
  shows "w + 2001 / 2 ^ 53 < h"
proof -
  define D :: int where "D = m * t - 2000 * c"
  have T: "(0::rat) < of_int t"
    using t by simp
  have eq: "of_int D = 2 * of_int t * (h - w)"
    using T by (simp add: D_def w h field_simps)
  have "(0::rat) < of_int D"
    unfolding eq using T pos by simp
  then have "1 \<le> D"
    by simp
  then have "(1::rat) \<le> of_int D"
    by (simp only: of_int_1_le_iff)
  then have one: "1 \<le> 2 * of_int t * (h - w)"
    by (simp only: eq)
  have "(of_int t :: rat) < 2 ^ 41"
    using tb by (metis of_int_less_iff of_int_numeral of_int_power)
  then have tb': "2 * (of_int t :: rat) * (2001 / 2 ^ 53) < 1"
    by simp
  show ?thesis
  proof (rule ccontr)
    assume "\<not> ?thesis"
    then have "h - w \<le> 2001 / 2 ^ 53"
      by linarith
    then have "2 * of_int t * (h - w) \<le> 2 * of_int t * (2001 / 2 ^ 53)"
      using T by (intro mult_left_mono) simp_all
    with one tb' show False
      by linarith
  qed
qed

lemma rate_nearest:
  fixes c t :: int
  assumes "0 < c" and "c \<le> t" and "t < 2 ^ 41"
  shows "\<bar>of_int (round_half_even
              (double_round (double_round (of_int c / of_int t) * 100) * 10))
           - 1000 * of_int c / of_int t\<bar> \<le> (1::rat) / 2"
proof -
  define w :: rat where "w = 1000 * of_int c / of_int t"
  define z where "z = double_round (double_round (of_int c / of_int t) * 100) * 10"
  define n where "n = round_half_even z"
  have t: "0 < t"
    using assms by linarith
  have zw: "\<bar>z - w\<bar> \<le> 2001 / 2 ^ 53"
    unfolding z_def w_def using assms(1,2) by (rule rate_error)
  have nz: "\<bar>of_int n - z\<bar> \<le> 1 / 2"
    unfolding n_def by (rule round_half_even_error)
  have lo: "(of_int n :: rat) - 1 / 2 = of_int (2 * n - 1) / 2"
    by simp
  have hi: "- (of_int n :: rat) - 1 / 2 = of_int (- (2 * n + 1)) / 2"
    by simp
  have mw: "- w = 1000 * of_int (- c) / of_int t"
    by (simp add: w_def)
  have "\<not> w < of_int n - 1 / 2"
  proof
    assume "w < of_int n - 1 / 2"
    from near_half_gap[OF t assms(3) w_def lo this] zw nz show False
      by linarith
  qed
  moreover have "\<not> - w < - of_int n - 1 / 2"
  proof
    assume "- w < - of_int n - 1 / 2"
    from near_half_gap[OF t assms(3) mw hi this] zw nz show False
      by linarith
  qed
  ultimately have "\<bar>of_int n - w\<bar> \<le> 1 / 2"
    by linarith
  then show ?thesis
    by (simp only: n_def z_def w_def)
qed


lemma count_priorities_ok:
  assumes "\<forall>t\<in>set ts. wf_todo t" and "\<forall>p\<in>fst ` set acc. \<exists>x. p = PStr x"
  shows "\<exists>h. count_priorities ts acc = Inr h \<and> (\<forall>p\<in>fst ` set h. \<exists>x. p = PStr x)"
  using assms
proof (induction ts arbitrary: acc)
  case Nil
  then show ?case by simp
next
  case (Cons t ts)
  from Cons.prems(1) have "wf_todo t" by simp
  then obtain x where p: "map_of t ''priority'' = Some (PStr x)"
    by (auto simp: wf_todo_def)
  let ?acc = "AList.update (PStr x) ((case map_of acc (PStr x) of None \<Rightarrow> 0 | Some n \<Rightarrow> n) + 1) acc"
  have "\<forall>p\<in>fst ` set ?acc. \<exists>x. p = PStr x"
    using Cons.prems(2) by (auto simp: dom_update)
  with Cons.IH[of ?acc] Cons.prems(1) show ?case
    by (simp add: getitem_def p)
qed

lemma breakdown_ok:
  "\<forall>p\<in>fst ` set h. \<exists>x. p = PStr x \<Longrightarrow> first_error (map breakdown_error h) = None"
  by (intro first_error_None) (auto simp: breakdown_error_def split: pyval.splits)

lemma completion_rate_no_error: "completion_rate k n \<noteq> Inl e"
  by (simp add: completion_rate_def true_div_def)

lemma completion_rate_nearest:
  assumes "0 < n" and "k \<le> n" and "n < 2 ^ 41"
  shows "\<exists>r. completion_rate k n = Inr (CompletionRate r)
           \<and> one_decimal_of r (100 * of_nat k / of_nat n)"
proof (cases "k = 0")
  case True
  with assms(1) have "completion_rate k n = Inr (CompletionRate 0)"
    by (simp add: completion_rate_def true_div_def float_mul_def format_1f_def
        double_round_def round_half_even_def)
  with True show ?thesis
    by (simp add: one_decimal_of_def)
next
  case False
  define r where "r = round_half_even
      (double_round (double_round (of_int (int k) / of_int (int n)) * 100) * 10)"
  have "int n < 2 ^ 41"
    using assms(3) by (metis of_nat_less_iff of_nat_numeral of_nat_power)
  with False assms(2) have "\<bar>of_int r - 1000 * of_int (int k) / of_int (int n)\<bar> \<le> (1::rat) / 2"
    unfolding r_def by (intro rate_nearest) simp_all
  then have "one_decimal_of r (100 * of_nat k / of_nat n)"
    by (simp add: one_decimal_of_def abs_le_iff field_simps)
  moreover have "completion_rate k n = Inr (CompletionRate r)"
    using assms(1) by (simp add: completion_rate_def true_div_def float_mul_def format_1f_def r_def)
  ultimately show ?thesis by blast
qed

lemma filter_field_error: "filter_field k v ts = Inl e \<Longrightarrow> e = KeyError"
  by (induction ts arbitrary: e) (auto simp: getitem_def split: option.splits sum.splits)

lemma count_priorities_error: "count_priorities ts acc = Inl e \<Longrightarrow> e = KeyError"
  by (induction ts arbitrary: acc) (auto simp: getitem_def split: option.splits sum.splits)

lemma breakdown_error_kind: "first_error (map breakdown_error h) = Some e \<Longrightarrow> e = AttributeError"
  by (induction h) (auto simp: breakdown_error_def split: pyval.splits)

lemma completed_count_le: "completed_count ts \<le> length ts"
  by (simp add: completed_count_def)


text \<open>
  C9. \<open>get_statistics\<close> never raises \<open>ZeroDivisionError\<close>, whatever the state. On the
  empty collection it reports the total 0 and prints the no-todos line in place of a
  rate. On a non-empty collection of well-formed todos (fewer than \<open>2 ^ 41\<close> of them) it
  reports the total, the number of completed todos, their difference, and as rate a
  decimal with one fractional digit such that no other is nearer to
  \<open>100 * completed / total\<close>. With 1 of 3 completed the rate is 33.3.
\<close>

theorem statistics_rate:
  "fst (get_statistics s) \<noteq> Raised ZeroDivisionError
   \<and> (todos s = [] \<longrightarrow> get_statistics s = (Printed [Statistics 0 0 0 NoTodos []], s))
   \<and> ((\<forall>t\<in>set (todos s). wf_todo t) \<and> todos s \<noteq> [] \<and> length (todos s) < 2 ^ 41 \<longrightarrow>
        (\<exists>r h. get_statistics s =
                 (Printed [Statistics (length (todos s)) (completed_count (todos s))
                             (int (length (todos s)) - int (completed_count (todos s)))
                             (CompletionRate r) h], s)
               \<and> one_decimal_of r
                    (100 * of_nat (completed_count (todos s)) / of_nat (length (todos s)))))
   \<and> completion_rate 1 3 = Inr (CompletionRate 333)"
proof -
  have 1: "fst (get_statistics s) \<noteq> Raised ZeroDivisionError"
    by (auto simp: get_statistics_def Let_def completion_rate_no_error
        split: sum.splits option.splits
        dest: filter_field_error count_priorities_error breakdown_error_kind)
  have 2: "get_statistics s = (Printed [Statistics 0 0 0 NoTodos []], s)" if "todos s = []"
    using that by (simp add: get_statistics_def completion_rate_def)
  have 3: "\<exists>r h. get_statistics s =
                 (Printed [Statistics (length (todos s)) (completed_count (todos s))
                             (int (length (todos s)) - int (completed_count (todos s)))
                             (CompletionRate r) h], s)
               \<and> one_decimal_of r
                    (100 * of_nat (completed_count (todos s)) / of_nat (length (todos s)))"
    if wf: "\<forall>t\<in>set (todos s). wf_todo t" and ne: "todos s \<noteq> []" and len: "length (todos s) < 2 ^ 41"
  proof -
    from wf have f: "filter_field ''status'' ''completed'' (todos s) =
        Inr (filter (\<lambda>t. map_of t ''status'' = Some (PStr ''completed'')) (todos s))"
      by (intro filter_field_eq) (simp add: wf_keys)
    from ne have "0 < length (todos s)" by simp
    from completion_rate_nearest[OF this completed_count_le len]
    obtain r where r: "completion_rate (completed_count (todos s)) (length (todos s))
          = Inr (CompletionRate r)"
      and d: "one_decimal_of r
          (100 * of_nat (completed_count (todos s)) / of_nat (length (todos s)))"
      by blast
    from count_priorities_ok[OF wf, of "[]"]
    obtain h where h: "count_priorities (todos s) [] = Inr h"
      and hs: "\<forall>p\<in>fst ` set h. \<exists>x. p = PStr x"
      by auto
    from hs have b: "first_error (map breakdown_error h) = None"
      by (rule breakdown_ok)
    have "get_statistics s =
        (Printed [Statistics (length (todos s)) (completed_count (todos s))
                    (int (length (todos s)) - int (completed_count (todos s)))
                    (CompletionRate r) h], s)"
      using r by (simp add: get_statistics_def f h b completed_count_def Let_def)
    with d show ?thesis by blast
  qed
  have 4: "completion_rate 1 3 = Inr (CompletionRate 333)"
    by code_simp
  from 1 2 3 4 show ?thesis by blast
qed


theorem statistics_rate_witness:
  "todos fresh = []
   \<and> get_statistics fresh = (Printed [Statistics 0 0 0 NoTodos []], fresh)
   \<and> list_all wf_todo (todos three_tasks)
   \<and> todos three_tasks \<noteq> [] \<and> length (todos three_tasks) < 2 ^ 41
   \<and> length (todos three_tasks) = 3 \<and> completed_count (todos three_tasks) = 1
   \<and> get_statistics three_tasks
       = (Printed [Statistics 3 1 2 (CompletionRate 333)
                     [(PStr ''high'', 1), (PStr ''low'', 1), (PStr ''medium'', 1)]], three_tasks)
   \<and> one_decimal_of 333 (100 * of_nat 1 / of_nat 3)"
proof -
  have f: "todos fresh = []"
    by (simp add: query_defs)
  have h: "\<forall>t\<in>set (todos three_tasks). wf_todo t"
    by (simp add: query_defs)
  have n: "todos three_tasks \<noteq> []" and b: "length (todos three_tasks) < 2 ^ 41"
    and l: "length (todos three_tasks) = 3" and k: "completed_count (todos three_tasks) = 1"
    by (simp_all add: query_defs completed_count_def)
  have "completion_rate 1 3 = Inr (CompletionRate 333)"
    using statistics_rate [of fresh] by blast
  then have r: "completion_rate (Suc 0) (Suc (Suc (Suc 0))) = Inr (CompletionRate 333)"
    by (simp add: numeral_3_eq_3)
  have e: "get_statistics three_tasks
       = (Printed [Statistics 3 1 2 (CompletionRate 333)
                     [(PStr ''high'', 1), (PStr ''low'', 1), (PStr ''medium'', 1)]], three_tasks)"
    by (simp add: get_statistics_def query_defs r breakdown_error_def)
  from statistics_rate [of fresh] f
  have e0: "get_statistics fresh = (Printed [Statistics 0 0 0 NoTodos []], fresh)"
    by blast
  from statistics_rate [of three_tasks] h n b
  obtain r' h' where "get_statistics three_tasks =
        (Printed [Statistics (length (todos three_tasks)) (completed_count (todos three_tasks))
                    (int (length (todos three_tasks)) - int (completed_count (todos three_tasks)))
                    (CompletionRate r') h'], three_tasks)"
    and d: "one_decimal_of r'
        (100 * of_nat (completed_count (todos three_tasks)) / of_nat (length (todos three_tasks)))"
    by blast
  with e have "r' = 333"
    by simp
  with d have "one_decimal_of 333 (100 * of_nat 1 / of_nat 3)"
    by (simp add: l k)
  with f e0 h n b l k e show ?thesis
    unfolding list_all_iff by blast
qed

end
